theory Spec2Isabelle
  imports Main "HOL-Library.AList"
begin

section \<open>JavaScript values\<close>

text \<open>
  The values the changeset handles. A plain object is the list of its own enumerable
  properties in insertion order; \<open>Change v\<close> is an instance of the class \<open>Change\<close> of
  validated-changeset, whose one own property is \<open>value\<close>; \<open>Fn name\<close> is a function or
  method, opaque. Numbers are integers (no claim computes with them; \<open>NaN\<close> is left out).
  The model is about own enumerable properties: a property read of a name that is not one
  yields \<open>undefined\<close> (prototype members and an array's \<open>length\<close> are not modelled), and
  the properties keep the order of insertion (integer-like names are not listed first).
\<close>

datatype jsval =
    Undefined
  | Null
  | Bool bool
  | Num int
  | Str string
  | Arr "jsval list"
  | Date int
  | Obj "(string \<times> jsval) list"
  | Change jsval
  | Fn string

datatype error = TypeError | AssertionFailed string | HostError string

text \<open>JavaScript truthiness (\<open>if (x)\<close>, \<open>Boolean(x)\<close>).\<close>

fun truthy :: "jsval \<Rightarrow> bool" where
  "truthy Undefined = False"
| "truthy Null = False"
| "truthy (Bool b) = b"
| "truthy (Num n) = (n \<noteq> 0)"
| "truthy (Str s) = (s \<noteq> [])"
| "truthy _ = True"

fun isArray :: "jsval \<Rightarrow> bool" where
  "isArray (Arr xs) = True"
| "isArray _ = False"

text \<open>
  \<open>addon/utils/is-object.js\<close>: not \<open>null\<close>, not a \<open>Date\<close>, not an array, and of
  \<open>typeof\<close> \<open>'object'\<close> (an Ember instance is of that type as well). A \<open>Change\<close> instance
  passes; a function does not.
\<close>

fun isObject :: "jsval \<Rightarrow> bool" where
  "isObject (Obj kvs) = True"
| "isObject (Change v) = True"
| "isObject _ = False"

subsection \<open>Strings of digits, paths\<close>

fun digit_char :: "nat \<Rightarrow> char" where
  "digit_char n = char_of (48 + n)"

function show_nat :: "nat \<Rightarrow> string" where
  "show_nat n = (if n < 10 then [digit_char n] else show_nat (n div 10) @ [digit_char (n mod 10)])"
  by pat_completeness auto
termination
  by (relation "measure id") auto

text \<open>\<open>key.split('.')\<close>: never empty, the empty string gives one empty segment.\<close>

fun split_dot :: "string \<Rightarrow> string list" where
  "split_dot [] = [[]]"
| "split_dot (c # cs) =
     (if c = CHR ''.'' then [] # split_dot cs
      else (case split_dot cs of [] \<Rightarrow> [[c]] | p # ps \<Rightarrow> (c # p) # ps))"

text \<open>\<open>parts.join('.')\<close>.\<close>

fun join_dot :: "string list \<Rightarrow> string" where
  "join_dot [] = []"
| "join_dot [p] = p"
| "join_dot (p # q # ps) = p @ ''.'' @ join_dot (q # ps)"

subsection \<open>Property access\<close>

text \<open>
  The own enumerable string-keyed properties of a value, as \<open>Object.keys\<close>,
  \<open>Object.assign\<close> and the spread \<open>{...v}\<close> see them: the entries of an object, the one
  field of a \<open>Change\<close>, the indices of an array or of a string; none for the rest.
\<close>

fun indexed :: "nat \<Rightarrow> jsval list \<Rightarrow> (string \<times> jsval) list" where
  "indexed i [] = []"
| "indexed i (x # xs) = (show_nat i, x) # indexed (Suc i) xs"

fun own_props :: "jsval \<Rightarrow> (string \<times> jsval) list" where
  "own_props (Obj kvs) = kvs"
| "own_props (Change v) = [(''value'', v)]"
| "own_props (Arr xs) = indexed 0 xs"
| "own_props (Str s) = indexed 0 (map (\<lambda>c. Str [c]) s)"
| "own_props _ = []"

text \<open>\<open>Object.keys(v)\<close>.\<close>

definition keys :: "jsval \<Rightarrow> string list" where
  "keys v = map fst (own_props v)"

text \<open>\<open>Object.prototype.hasOwnProperty.call(v, k)\<close>.\<close>

definition hasOwnProperty :: "jsval \<Rightarrow> string \<Rightarrow> bool" where
  "hasOwnProperty v k = (map_of (own_props v) k \<noteq> None)"

text \<open>
  The read \<open>v[k]\<close>: a \<open>TypeError\<close> on \<open>undefined\<close> and \<open>null\<close>, \<open>undefined\<close> for a
  name that is not a property.
\<close>

definition lookup :: "(string \<times> jsval) list \<Rightarrow> string \<Rightarrow> jsval" where
  "lookup kvs k = (case map_of kvs k of Some v \<Rightarrow> v | None \<Rightarrow> Undefined)"

fun member :: "jsval \<Rightarrow> string \<Rightarrow> error + jsval" where
  "member Undefined k = Inl TypeError"
| "member Null k = Inl TypeError"
| "member v k = Inr (lookup (own_props v) k)"

text \<open>
  The write \<open>obj[k] = v\<close> on the property list of an object: an existing property keeps
  its place, a new one goes last.
\<close>

definition assign_prop :: "string \<Rightarrow> jsval \<Rightarrow> (string \<times> jsval) list \<Rightarrow> (string \<times> jsval) list" where
  "assign_prop k v kvs = AList.update k v kvs"

text \<open>\<open>Object.assign(target, source)\<close> and \<open>{...a, ...b}\<close> on property lists.\<close>

definition assign_all :: "(string \<times> jsval) list \<Rightarrow> (string \<times> jsval) list \<Rightarrow> (string \<times> jsval) list" where
  "assign_all target src = fold (\<lambda>(k, v). assign_prop k v) src target"

section \<open>The store\<close>

text \<open>
  The three tracked fields of \<open>EmberChangeset\<close>: \<open>_content\<close>, the underlying object;
  \<open>_changes\<close> and \<open>_errors\<close>, two objects, given by their property lists.
\<close>

record ember_changeset =
  content :: jsval
  changes :: "(string \<times> jsval) list"
  errors :: "(string \<times> jsval) list"

text \<open>
  What \<open>get\<close> imports from outside the file: \<open>getDeep\<close> is Ember's \<open>get\<close> (the class
  field \<open>getDeep = safeGet\<close>), which may fail; \<open>normalizeObject\<close> comes from
  validated-changeset; \<open>isBelongsToRelationship\<close> and \<open>isLeafInChanges\<close> are the two
  utilities of the addon; \<open>inherited\<close> gives, for the current state, the value of every
  property of the instance that \<open>EmberChangeset\<close> does not declare itself (the members of
  \<open>BufferedChangeset\<close>), \<open>undefined\<close> where there is none. They are parameters of the
  model.
\<close>

record host =
  getDeep :: "jsval \<Rightarrow> string \<Rightarrow> error + jsval"
  normalizeObject :: "jsval \<Rightarrow> jsval"
  isBelongsToRelationship :: "jsval \<Rightarrow> bool"
  isLeafInChanges :: "string \<Rightarrow> jsval \<Rightarrow> bool"
  inherited :: "ember_changeset \<Rightarrow> string \<Rightarrow> jsval"

text \<open>
  Modelled from the spec: the getter \<open>isValid\<close> of \<open>BufferedChangeset\<close>, which is not in
  the repository: "Errors map empty".
\<close>

definition isValid :: "ember_changeset \<Rightarrow> bool" where
  "isValid cs = (errors cs = [])"

text \<open>
  Modelled from the spec: the getter \<open>isDirty\<close> of \<open>BufferedChangeset\<close>, which is not in
  the repository: "Changes map non-empty".
\<close>

definition isDirty :: "ember_changeset \<Rightarrow> bool" where
  "isDirty cs = (changes cs \<noteq> [])"

text \<open>The methods and the class field that \<open>EmberChangeset\<close> declares.\<close>

definition method_names :: "string list" where
  "method_names = [''getDeep'', ''safeGet'', ''safeSet'', ''addError'', ''pushErrors'',
     ''_setProperty'', ''_notifyVirtualProperties'', ''_deleteKey'', ''execute'', ''get'']"

text \<open>The read \<open>this[k]\<close> on the store.\<close>

definition this_prop :: "host \<Rightarrow> ember_changeset \<Rightarrow> string \<Rightarrow> jsval" where
  "this_prop h cs k =
     (if k = ''_changes'' then Obj (changes cs)
      else if k = ''_errors'' then Obj (errors cs)
      else if k = ''_content'' then content cs
      else if k = ''isValid'' then Bool (isValid cs)
      else if k = ''isDirty'' then Bool (isDirty cs)
      else if k \<in> set method_names then Fn k
      else inherited h cs k)"

section \<open>The proxied getter\<close>

text \<open>
  \<open>get\<close> returns from eight places; the model returns, with the value, the place
  that produced it: the leaf short-circuit (\<open>return result\<close> inside
  \<open>remaining.length > 0\<close>), the normalized candidate (\<open>return result\<close> twice in the
  object branch), the synthesized object (\<open>return data\<close>, the object that
  \<open>Object.assign(Object.create(...), result)\<close> creates in the call), \<open>return
  result.value\<close>, \<open>return this[key]\<close>, the deep read off \<open>this[baseKey]\<close>, and the
  deep read off the content.
\<close>

datatype site =
    LeafChange
  | Normalized
  | SiblingMerge
  | ResultValue
  | StoreMember
  | StoreNested
  | ContentRead

text \<open>The body of \<open>netKeys.forEach(k => ...)\<close>, on the property list of \<open>data\<close>.\<close>

definition merge_key ::
  "host \<Rightarrow> jsval \<Rightarrow> string \<Rightarrow> jsval \<Rightarrow> string \<Rightarrow> (string \<times> jsval) list
     \<Rightarrow> error + (string \<times> jsval) list" where
  "merge_key h cont key result k data =
     (case member result k of
        Inl e \<Rightarrow> Inl e
      | Inr inResult \<Rightarrow>
          (case getDeep h cont (join_dot (split_dot key @ [k])) of
             Inl e \<Rightarrow> Inl e
           | Inr contentData \<Rightarrow>
               Inr (if isObject contentData \<and> isObject inResult
                    then assign_prop k
                           (Obj (assign_all (assign_all [] (own_props contentData))
                                   (own_props inResult))) data
                    else if inResult = Undefined then assign_prop k contentData data
                    else data)))"

fun merge_keys ::
  "host \<Rightarrow> jsval \<Rightarrow> string \<Rightarrow> jsval \<Rightarrow> string list \<Rightarrow> (string \<times> jsval) list
     \<Rightarrow> error + (string \<times> jsval) list" where
  "merge_keys h cont key result [] data = Inr data"
| "merge_keys h cont key result (k # ks) data =
     (case merge_key h cont key result k data of
        Inl e \<Rightarrow> Inl e
      | Inr data' \<Rightarrow> merge_keys h cont key result ks data')"

text \<open>
  The branch of a candidate that is an object: normalize it, read the content at the
  key, and merge the sibling keys of the content when the four conditions hold.
  \<open>Object.getPrototypeOf(content[baseKey])\<close> throws on \<open>undefined\<close> and \<open>null\<close>.
\<close>

definition from_object ::
  "host \<Rightarrow> ember_changeset \<Rightarrow> string \<Rightarrow> string \<Rightarrow> jsval \<Rightarrow> error + (site \<times> jsval)" where
  "from_object h cs key baseKey result0 =
     (let result = normalizeObject h result0; cont = content cs in
      case getDeep h cont key of
        Inl e \<Rightarrow> Inl e
      | Inr contentAtLeaf \<Rightarrow>
          if \<not> isArray result \<and> isObject contentAtLeaf
             \<and> \<not> isBelongsToRelationship h contentAtLeaf
             \<and> \<not> isLeafInChanges h key (Obj (changes cs))
          then
            (let netKeys = keys contentAtLeaf in
             if length netKeys = 0 then Inr (Normalized, result)
             else
               (case member cont baseKey of
                  Inl e \<Rightarrow> Inl e
                | Inr proto_of \<Rightarrow>
                    if proto_of = Undefined \<or> proto_of = Null then Inl TypeError
                    else
                      (case merge_keys h cont key result netKeys
                              (assign_all [] (own_props result)) of
                         Inl e \<Rightarrow> Inl e
                       | Inr data \<Rightarrow> Inr (SiblingMerge, Obj data))))
          else Inr (Normalized, result))"

text \<open>
  The candidate of step 1: the entry of the base key itself, or, for a nested key, the
  deep read of the remaining segments off the normalized entry.
\<close>

definition candidate ::
  "host \<Rightarrow> ember_changeset \<Rightarrow> string \<Rightarrow> string list \<Rightarrow> error + jsval" where
  "candidate h cs baseKey remaining =
     (let c = lookup (changes cs) baseKey in
      if length remaining > 0
      then getDeep h (normalizeObject h c) (join_dot remaining)
      else Inr c)"

text \<open>
  Step 1, inside \<open>if (hasOwnProperty.call(this[CHANGES], baseKey))\<close>: \<open>Some\<close> is a
  \<open>return\<close>, \<open>None\<close> leaves the block.
\<close>

definition from_changes ::
  "host \<Rightarrow> ember_changeset \<Rightarrow> string \<Rightarrow> string \<Rightarrow> string list
     \<Rightarrow> error + (site \<times> jsval) option" where
  "from_changes h cs key baseKey remaining =
     (case candidate h cs baseKey remaining of
        Inl e \<Rightarrow> Inl e
      | Inr result \<Rightarrow>
          if length remaining > 0 \<and> result \<noteq> Undefined \<and> \<not> isObject result
          then Inr (Some (LeafChange, result))
          else if (result \<noteq> Undefined \<and> result \<noteq> Null) \<and> isObject result
          then map_sum id Some (from_object h cs key baseKey result)
          else if truthy result
          then map_sum id (\<lambda>v. Some (ResultValue, v)) (member result ''value'')
          else Inr None)"

text \<open>Steps 2 and 3: the members of the store, then the content.\<close>

definition from_store_or_content ::
  "host \<Rightarrow> ember_changeset \<Rightarrow> string \<Rightarrow> string \<Rightarrow> string list \<Rightarrow> error + (site \<times> jsval)" where
  "from_store_or_content h cs key baseKey remaining =
     (if this_prop h cs key \<noteq> Undefined then Inr (StoreMember, this_prop h cs key)
      else if truthy (this_prop h cs baseKey) \<and> isObject (this_prop h cs baseKey)
      then map_sum id (Pair StoreNested) (getDeep h (this_prop h cs baseKey) (join_dot remaining))
      else map_sum id (Pair ContentRead) (getDeep h (content cs) key))"

definition get_traced :: "host \<Rightarrow> ember_changeset \<Rightarrow> string \<Rightarrow> error + (site \<times> jsval)" where
  "get_traced h cs key =
     (let parts = split_dot key; baseKey = hd parts; remaining = tl parts in
      if hasOwnProperty (Obj (changes cs)) baseKey
      then
        (case from_changes h cs key baseKey remaining of
           Inl e \<Rightarrow> Inl e
         | Inr (Some r) \<Rightarrow> Inr r
         | Inr None \<Rightarrow> from_store_or_content h cs key baseKey remaining)
      else from_store_or_content h cs key baseKey remaining)"

text \<open>\<open>EmberChangeset.get\<close>: the value alone.\<close>

definition get :: "host \<Rightarrow> ember_changeset \<Rightarrow> string \<Rightarrow> error + jsval" where
  "get h cs key = map_sum id snd (get_traced h cs key)"

section \<open>Notifications\<close>

text \<open>
  \<open>notifyPropertyChange(this, key)\<close> runs the observers of \<open>key\<close> at once, on the store
  as it is at that moment: an event is the key with the state the observers see. A method
  returns its value, the store after the call, and the events in the order of emission.
\<close>

type_synonym event = "string \<times> ember_changeset"

definition notifyPropertyChange :: "ember_changeset \<Rightarrow> string \<Rightarrow> event list" where
  "notifyPropertyChange this key = [(key, this)]"

definition CHANGES :: string where
  "CHANGES = ''_changes''"

definition ERRORS :: string where
  "ERRORS = ''_errors''"

text \<open>
  The four overrides (\<open>_setProperty\<close> and \<open>_deleteKey\<close> under the names
  \<open>setProperty\<close> and \<open>deleteKey\<close>). Each calls the method of \<open>BufferedChangeset\<close>
  first, which is a parameter (\<open>super_addError\<close> and the like: the store after the base
  method, and what it returns), then notifies twice.
\<close>

definition addError ::
  "(ember_changeset \<Rightarrow> string \<Rightarrow> jsval \<Rightarrow> ember_changeset)
     \<Rightarrow> ember_changeset \<Rightarrow> string \<Rightarrow> jsval \<Rightarrow> jsval \<times> ember_changeset \<times> event list" where
  "addError super_addError this key err =
     (let this1 = super_addError this key err;
          ev1 = notifyPropertyChange this1 ERRORS;
          ev2 = notifyPropertyChange this1 key
      in (err, this1, ev1 @ ev2))"

definition pushErrors ::
  "(ember_changeset \<Rightarrow> string \<Rightarrow> jsval list \<Rightarrow> (jsval \<times> jsval) \<times> ember_changeset)
     \<Rightarrow> ember_changeset \<Rightarrow> string \<Rightarrow> jsval list \<Rightarrow> jsval \<times> ember_changeset \<times> event list" where
  "pushErrors super_pushErrors this key newErrors =
     (case super_pushErrors this key newErrors of
        ((val, validation), this1) \<Rightarrow>
          (let ev1 = notifyPropertyChange this1 ERRORS;
               ev2 = notifyPropertyChange this1 key
           in (Obj [(''value'', val), (''validation'', validation)], this1, ev1 @ ev2)))"

definition setProperty ::
  "(ember_changeset \<Rightarrow> string \<Rightarrow> jsval \<Rightarrow> jsval \<Rightarrow> ember_changeset)
     \<Rightarrow> ember_changeset \<Rightarrow> string \<Rightarrow> jsval \<Rightarrow> jsval \<Rightarrow> jsval \<times> ember_changeset \<times> event list" where
  "setProperty super_setProperty this key val oldValue =
     (let this1 = super_setProperty this key val oldValue;
          ev1 = notifyPropertyChange this1 CHANGES;
          ev2 = notifyPropertyChange this1 key
      in (Undefined, this1, ev1 @ ev2))"

definition deleteKey ::
  "(ember_changeset \<Rightarrow> string \<Rightarrow> string \<Rightarrow> jsval \<times> ember_changeset)
     \<Rightarrow> ember_changeset \<Rightarrow> string \<Rightarrow> string \<Rightarrow> jsval \<times> ember_changeset \<times> event list" where
  "deleteKey super_deleteKey this objName key =
     (case super_deleteKey this objName key of
        (result, this1) \<Rightarrow>
          (let ev1 = notifyPropertyChange this1 (objName @ ''.'' @ key);
               ev2 = notifyPropertyChange this1 objName
           in (result, this1, ev1 @ ev2)))"

section \<open>Execute\<close>

text \<open>
  What a method hands back: a value, or \<open>this\<close>, the store the method was called on.
\<close>

datatype returned = This | Value jsval

text \<open>
  \<open>execute\<close>, with \<open>mergeDeep\<close> of \<open>./utils/merge-deep\<close> as a parameter: the merge
  mutates the content and returns it, and the result is assigned to \<open>this[CONTENT]\<close>; no
  other field is written. The merge may throw; \<open>execute\<close> catches nothing, so the
  exception leaves \<open>execute\<close> before \<open>return this\<close>.
\<close>

definition execute ::
  "(jsval \<Rightarrow> jsval \<Rightarrow> error + jsval) \<Rightarrow> ember_changeset
     \<Rightarrow> error + (returned \<times> ember_changeset)" where
  "execute mergeDeep this =
     (if isValid this \<and> isDirty this
      then (let cont = content this; chg = changes this
            in (case mergeDeep cont (Obj chg) of
                  Inl e \<Rightarrow> Inl e
                | Inr merged \<Rightarrow> Inr (This, this\<lparr>content := merged\<rparr>)))
      else Inr (This, this))"

section \<open>Construction and the Proxy\<close>

text \<open>
  \<open>changeset(obj, validateFn, validationMap, options)\<close>: the two assertions, then the
  constructor that \<open>options.changeset\<close> names, if any, else \<open>EmberChangeset\<close>. The
  constructors are taken to return; a new \<open>EmberChangeset\<close> holds the object, no change
  and no error. The validator goes to the constructor as it is.
\<close>

datatype ('v, 'a) store = Ember ember_changeset 'v | Alternate 'a

definition changeset ::
  "jsval \<Rightarrow> 'v \<Rightarrow> (jsval \<Rightarrow> 'v \<Rightarrow> 'a) option \<Rightarrow> error + ('v, 'a) store" where
  "changeset obj validateFn options_changeset =
     (if \<not> truthy obj then Inl (AssertionFailed ''Underlying object for changeset is missing'')
      else if \<not> (\<not> isArray obj)
      then Inl (AssertionFailed
             ''Array is not a valid type to pass as the first argument to `changeset`'')
      else (case options_changeset of
              Some ctor \<Rightarrow> Inr (Alternate (ctor obj validateFn))
            | None \<Rightarrow> Inr (Ember \<lparr>content = obj, changes = [], errors = []\<rparr> validateFn)))"

text \<open>
  The key of a trap of the Proxy is a string or a symbol; \<open>key.toString()\<close> of a symbol is
  \<open>Symbol(description)\<close>.
\<close>

datatype propkey = Name string | Symbol string

fun toString :: "propkey \<Rightarrow> string" where
  "toString (Name s) = s"
| "toString (Symbol d) = ''Symbol('' @ d @ '')''"

text \<open>
  The two traps of the Proxy that \<open>Changeset\<close> and \<open>ChangesetKlass\<close> build (the same
  text in both), over the \<open>get\<close> and \<open>set\<close> of the target. The \<open>get\<close> trap returns what
  the target's \<open>get\<close> returns. The \<open>set\<close> trap calls the target's \<open>set\<close>, which may
  throw: then the trap throws as well; when the call returns, the trap drops what it
  returned and answers \<open>true\<close> (the model keeps the outcome of the call, its effect on
  the store, next to the answer).
\<close>

definition proxy_get :: "('s \<Rightarrow> string \<Rightarrow> 'r) \<Rightarrow> 's \<Rightarrow> propkey \<Rightarrow> 'r" where
  "proxy_get target_get targetBuffer key = (let res = target_get targetBuffer (toString key) in res)"

definition proxy_set ::
  "('s \<Rightarrow> string \<Rightarrow> jsval \<Rightarrow> error + 'o) \<Rightarrow> 's \<Rightarrow> propkey \<Rightarrow> jsval \<Rightarrow> error + (bool \<times> 'o)" where
  "proxy_set target_set targetBuffer key val =
     (case target_set targetBuffer (toString key) val of
        Inl e \<Rightarrow> Inl e
      | Inr outcome \<Rightarrow> Inr (True, outcome))"

section \<open>The collaborators, from the spec\<close>

text \<open>
  Modelled from the spec: the accessor \<open>safeGet\<close> (Ember's \<open>get\<close>), "deep-read" of a dotted
  path: segment by segment, \<open>undefined\<close> as soon as a value on the way is \<open>undefined\<close> or
  \<open>null\<close>. Here on the segments of the path.
\<close>

fun read_path :: "jsval \<Rightarrow> string list \<Rightarrow> jsval" where
  "read_path v [] = v"
| "read_path v (k # ks) = (case member v k of Inl e \<Rightarrow> Undefined | Inr x \<Rightarrow> read_path x ks)"

text \<open>
  Modelled from the spec: \<open>safeGet(obj, path)\<close>, the deep read above on the dotted path.
\<close>

definition safeGet :: "jsval \<Rightarrow> string \<Rightarrow> jsval" where
  "safeGet obj path = read_path obj (split_dot path)"

text \<open>
  Modelled from the spec: \<open>normalizeObject\<close> of validated-changeset, "normalize an internal
  change wrapper value down to its plain stored value": a wrapper gives its value, a
  nested tree the tree with its wrappers replaced.
\<close>

fun normalize_object :: "jsval \<Rightarrow> jsval" where
  "normalize_object (Change v) = v"
| "normalize_object (Obj kvs) = Obj (map (\<lambda>(k, v). (k, normalize_object v)) kvs)"
| "normalize_object v = v"

text \<open>
  Modelled from the spec: \<open>isLeafInChanges\<close> of \<open>./utils/is-leaf\<close>, "detect whether a dotted
  key path is already a terminal (leaf) entry directly present in the changes map": the
  path leads to a wrapper.
\<close>

definition leafInChanges :: "string \<Rightarrow> jsval \<Rightarrow> bool" where
  "leafInChanges key chg = (case read_path chg (split_dot key) of Change v \<Rightarrow> True | _ \<Rightarrow> False)"

text \<open>
  The host built from them, over a relationship test and the inherited members, both
  left open.
\<close>

definition plain_host :: "(jsval \<Rightarrow> bool) \<Rightarrow> (ember_changeset \<Rightarrow> string \<Rightarrow> jsval) \<Rightarrow> host" where
  "plain_host rel inh =
     \<lparr>getDeep = (\<lambda>obj path. Inr (safeGet obj path)),
      normalizeObject = normalize_object,
      isBelongsToRelationship = rel,
      isLeafInChanges = leafInChanges,
      inherited = inh\<rparr>"

text \<open>
  Modelled from the spec: the "plain mergeable object" of the merge, "excluding arrays,
  dates, null"; a change wrapper is a tagged value and none either.
\<close>

fun mergeable :: "jsval \<Rightarrow> bool" where
  "mergeable (Obj kvs) = True"
| "mergeable _ = False"

text \<open>
  Modelled from the spec: what the merge writes for \<open>source[key]\<close>, "set destination[key]
  = source[key] directly": the source value itself, whole; for a leaf change, the value
  it wraps ("after \<open>execute()\<close>, \<open>content.age === 11\<close>"). A nested tree that is written
  whole keeps the wrappers inside it.
\<close>

fun written :: "jsval \<Rightarrow> jsval" where
  "written (Change v) = v"
| "written v = v"

text \<open>
  Modelled from the spec: the values that cannot take a property write, \<open>undefined\<close>,
  \<open>null\<close> and the primitives; a write on one of them throws.
\<close>

fun unwritable :: "jsval \<Rightarrow> bool" where
  "unwritable Undefined = True"
| "unwritable Null = True"
| "unwritable (Bool b) = True"
| "unwritable (Num n) = True"
| "unwritable (Str t) = True"
| "unwritable v = False"

text \<open>
  Modelled from the spec: \<open>mergeDeep\<close> of \<open>./utils/merge-deep\<close>, with its loop over the
  keys of the source. "For every enumerable key in source: if both destination[key] and
  source[key] are plain mergeable objects, recurse; otherwise set destination[key] =
  source[key] directly (primitives, arrays, and objects with no matching destination
  counterpart are overwritten wholesale, not merged). Returns the mutated destination."
  Its failures "propagate to the caller of execute": a nested object of the source whose
  counterpart in the destination is there but cannot take a write (\<open>{ user: null }\<close>
  under a staged \<open>user.name\<close>) is merged into that counterpart, and the merge throws; so
  does a merge into a content that cannot take a write. A content that is an array, a
  date, a function or a wrapper would take the write as an extra property, which the
  values of the model have no place for: it is returned as it is.
\<close>

fun mergeDeep :: "jsval \<Rightarrow> jsval \<Rightarrow> error + jsval"
  and mergeProps ::
    "(string \<times> jsval) list \<Rightarrow> (string \<times> jsval) list \<Rightarrow> error + (string \<times> jsval) list" where
  "mergeDeep destination (Obj s) =
     (case destination of
        Obj d \<Rightarrow> (case mergeProps d s of Inl e \<Rightarrow> Inl e | Inr merged \<Rightarrow> Inr (Obj merged))
      | _ \<Rightarrow> if unwritable destination \<and> s \<noteq> [] then Inl TypeError else Inr destination)"
| "mergeDeep destination source = Inr destination"
| "mergeProps d [] = Inr d"
| "mergeProps d ((k, sv) # s) =
     (if mergeable sv
         \<and> (mergeable (lookup d k) \<or> (map_of d k \<noteq> None \<and> unwritable (lookup d k)))
      then (case mergeDeep (lookup d k) sv of
              Inl e \<Rightarrow> Inl e
            | Inr merged \<Rightarrow> mergeProps (assign_prop k merged d) s)
      else mergeProps (assign_prop k (written sv) d) s)"

text \<open>
  Modelled from the spec: \<open>setDeep\<close> of validated-changeset, "store the value into Changes
  at path (creating/merging the intermediate nested-object skeleton as needed)".
\<close>

fun setDeep :: "(string \<times> jsval) list \<Rightarrow> string list \<Rightarrow> jsval \<Rightarrow> (string \<times> jsval) list" where
  "setDeep kvs [] v = kvs"
| "setDeep kvs [k] v = assign_prop k v kvs"
| "setDeep kvs (k # ks) v =
     assign_prop k (Obj (setDeep (case lookup kvs k of Obj sub \<Rightarrow> sub | _ \<Rightarrow> []) ks v)) kvs"

text \<open>
  Modelled from the spec: \<open>_setProperty\<close> of \<open>BufferedChangeset\<close>, "store the value into
  Changes at path", wrapped.
\<close>

definition base_setProperty ::
  "ember_changeset \<Rightarrow> string \<Rightarrow> jsval \<Rightarrow> jsval \<Rightarrow> ember_changeset" where
  "base_setProperty this key val oldValue =
     this\<lparr>changes := setDeep (changes this) (split_dot key) (Change val)\<rparr>"

text \<open>
  Modelled from the spec: \<open>addError\<close> of \<open>BufferedChangeset\<close>, "store an error record at
  path (overwriting any prior error for that path)".
\<close>

definition base_addError :: "ember_changeset \<Rightarrow> string \<Rightarrow> jsval \<Rightarrow> ember_changeset" where
  "base_addError this key err = this\<lparr>errors := assign_prop key err (errors this)\<rparr>"

text \<open>
  Modelled from the spec: \<open>set\<close> of \<open>BufferedChangeset\<close> with a synchronous validator, which
  "receives the path, new value, and old value" and passes when it returns \<open>true\<close>. The
  value is recorded through \<open>_setProperty\<close> first and validated next, the order of
  validated-changeset: on pass "any existing error at path" is removed; on fail the
  error record \<open>{ value, validation }\<close> is added, and the rejected value stays in the
  changes. A validator that throws makes \<open>set\<close> throw: nothing catches it.
\<close>

definition set_js ::
  "(string \<Rightarrow> jsval \<Rightarrow> jsval \<Rightarrow> error + jsval) \<Rightarrow> ember_changeset \<Rightarrow> string \<Rightarrow> jsval
     \<Rightarrow> error + (jsval \<times> ember_changeset \<times> event list)" where
  "set_js validate this path val =
     (let oldValue = safeGet (content this) path in
      case setProperty base_setProperty this path val oldValue of
        (r1, this1, ev1) \<Rightarrow>
          (case validate path val oldValue of
             Inl e \<Rightarrow> Inl e
           | Inr validation \<Rightarrow>
               if validation = Bool True
               then Inr (val, this1\<lparr>errors := AList.delete path (errors this1)\<rparr>, ev1)
               else (case addError base_addError this1 path
                            (Obj [(''value'', val), (''validation'', validation)]) of
                       (r2, this2, ev2) \<Rightarrow> Inr (r2, this2, ev1 @ ev2))))"



section \<open>Example stores\<close>

text \<open>A store without members of its own beyond those of \<open>EmberChangeset\<close>.\<close>

definition no_members :: "ember_changeset \<Rightarrow> string \<Rightarrow> jsval" where
  "no_members this k = Undefined"

text \<open>Two relationship tests: none, and one that takes a fulfilled-flag for the tag.\<close>

definition no_relationship :: "jsval \<Rightarrow> bool" where
  "no_relationship v = False"

definition promise_like :: "jsval \<Rightarrow> bool" where
  "promise_like v = hasOwnProperty v ''isFulfilled''"

text \<open>The content \<open>{ user: { name: 'A', email: 'a@x.com' } }\<close>, untouched.\<close>

definition store_none :: ember_changeset where
  "store_none =
     \<lparr>content = Obj [(''user'', Obj [(''name'', Str ''A''), (''email'', Str ''a@x.com'')])],
      changes = [], errors = []\<rparr>"

text \<open>The same after \<open>set('user.name', 'B')\<close>.\<close>

definition store_name :: ember_changeset where
  "store_name =
     \<lparr>content = Obj [(''user'', Obj [(''name'', Str ''A''), (''email'', Str ''a@x.com'')])],
      changes = [(''user'', Obj [(''name'', Change (Str ''B''))])], errors = []\<rparr>"

text \<open>A staged \<open>0\<close> under \<open>user.age\<close>, with an error recorded at the same path.\<close>

definition store_age :: ember_changeset where
  "store_age =
     \<lparr>content = Obj [(''user'', Obj [(''age'', Num 5)])],
      changes = [(''user'', Obj [(''age'', Change (Num 0))])],
      errors = [(''user.age'', Obj [(''value'', Num 7), (''validation'', Str ''too old'')])]\<rparr>"

text \<open>A content whose \<open>owner\<close> is a relationship, with a staged \<open>owner.id\<close>.\<close>

definition store_owner :: ember_changeset where
  "store_owner =
     \<lparr>content = Obj [(''owner'', Obj [(''id'', Num 1), (''isFulfilled'', Bool True)])],
      changes = [(''owner'', Obj [(''id'', Change (Num 2))])], errors = []\<rparr>"

text \<open>The content \<open>{ user: null }\<close> after \<open>set('user.name', 'B')\<close>.\<close>

definition store_null :: ember_changeset where
  "store_null =
     \<lparr>content = Obj [(''user'', Null)],
      changes = [(''user'', Obj [(''name'', Change (Str ''B''))])], errors = []\<rparr>"


text \<open>
  Three validators: one that passes everything, one that passes nothing, one that
  throws.
\<close>

definition always_valid :: "string \<Rightarrow> jsval \<Rightarrow> jsval \<Rightarrow> error + jsval" where
  "always_valid path val oldValue = Inr (Bool True)"

definition never_valid :: "string \<Rightarrow> jsval \<Rightarrow> jsval \<Rightarrow> error + jsval" where
  "never_valid path val oldValue = Inr (Str ''is invalid'')"

definition throwing_validator :: "string \<Rightarrow> jsval \<Rightarrow> jsval \<Rightarrow> error + jsval" where
  "throwing_validator path val oldValue = Inl (HostError ''validator failed'')"

section \<open>Properties of \<open>execute\<close>\<close>

lemma split_dot_nonempty: "split_dot s \<noteq> []"
  by (induction s) (auto split: list.splits)

lemma mergeDeep_store_name:
  "mergeDeep (content store_name) (Obj (changes store_name))
     = Inr (Obj [(''user'', Obj [(''name'', Str ''B''), (''email'', Str ''a@x.com'')])])"
  by (simp add: store_name_def lookup_def assign_prop_def)

text \<open>
  C1, as stated, fails: on the content \<open>{ user: null }\<close> with a staged \<open>user.name\<close>
  the store is valid and dirty, the merge throws, and \<open>execute\<close> throws with it instead
  of returning the store.
\<close>

theorem execute_throws_counterexample:
  "isValid store_null \<and> isDirty store_null \<and>
   mergeDeep (content store_null) (Obj (changes store_null)) = Inl TypeError \<and>
   execute mergeDeep store_null = Inl TypeError"
  by (simp add: execute_def isValid_def isDirty_def store_null_def lookup_def)

text \<open>
  C1, amended. For every store and every merge routine: when the store is not both
  valid and dirty, \<open>execute\<close> merges nothing and returns \<open>this\<close>, the store as it is;
  when it is valid and dirty, \<open>execute\<close> runs the merge of the content with the changes,
  and returns \<open>this\<close> with the merged content if the merge returns, and throws what the
  merge throws if it throws.
\<close>

theorem execute_merges_iff_valid_and_dirty:
  "(\<not> (isValid this \<and> isDirty this) \<longrightarrow> execute merge this = Inr (This, this)) \<and>
   (isValid this \<and> isDirty this \<longrightarrow>
      (\<forall>merged. merge (content this) (Obj (changes this)) = Inr merged \<longrightarrow>
         execute merge this = Inr (This, this\<lparr>content := merged\<rparr>)) \<and>
      (\<forall>e. merge (content this) (Obj (changes this)) = Inl e \<longrightarrow>
         execute merge this = Inl e))"
  by (simp add: execute_def)

theorem execute_merges_iff_valid_and_dirty_witness:
  "isValid store_name \<and> isDirty store_name \<and>
   mergeDeep (content store_name) (Obj (changes store_name))
     = Inr (Obj [(''user'', Obj [(''name'', Str ''B''), (''email'', Str ''a@x.com'')])]) \<and>
   execute mergeDeep store_name =
     Inr (This, store_name\<lparr>content :=
       Obj [(''user'', Obj [(''name'', Str ''B''), (''email'', Str ''a@x.com'')])]\<rparr>) \<and>
   \<not> (isValid store_age \<and> isDirty store_age) \<and>
   execute mergeDeep store_age = Inr (This, store_age) \<and>
   isValid store_null \<and> isDirty store_null \<and>
   mergeDeep (content store_null) (Obj (changes store_null)) = Inl TypeError \<and>
   execute mergeDeep store_null = Inl TypeError"
proof -
  have a: "isValid store_name \<and> isDirty store_name"
    by (simp add: isValid_def isDirty_def store_name_def)
  have b: "\<not> (isValid store_age \<and> isDirty store_age)"
    by (simp add: isValid_def store_age_def)
  have c: "isValid store_null \<and> isDirty store_null"
    by (simp add: isValid_def isDirty_def store_null_def)
  have t: "mergeDeep (content store_null) (Obj (changes store_null)) = Inl TypeError"
    by (simp add: store_null_def lookup_def)
  show ?thesis
    using execute_merges_iff_valid_and_dirty [of store_name mergeDeep]
      execute_merges_iff_valid_and_dirty [of store_age mergeDeep]
      execute_merges_iff_valid_and_dirty [of store_null mergeDeep]
      a b c t mergeDeep_store_name
    by simp
qed




subsection \<open>Merging twice\<close>














section \<open>Properties of \<open>get\<close>\<close>

lemma get_of_traced: "get_traced h this key = map_sum id (Pair s) r \<Longrightarrow> get h this key = r"
  by (cases r) (simp_all add: get_def)

text \<open>
  C5, as stated, fails: with no change and no error, \<open>get('_content')\<close> returns the field
  of the store, not the deep read of the content.
\<close>

theorem get_member_counterexample:
  "\<not> hasOwnProperty (Obj (changes store_none)) (hd (split_dot ''_content'')) \<and>
   \<not> hasOwnProperty (Obj (errors store_none)) ''_content'' \<and>
   get (plain_host no_relationship no_members) store_none ''_content'' = Inr (content store_none) \<and>
   getDeep (plain_host no_relationship no_members) (content store_none) ''_content'' = Inr Undefined \<and>
   get (plain_host no_relationship no_members) store_none ''_content''
     \<noteq> getDeep (plain_host no_relationship no_members) (content store_none) ''_content''"
  by (simp add: store_none_def hasOwnProperty_def get_def get_traced_def from_store_or_content_def
      this_prop_def plain_host_def safeGet_def lookup_def Let_def)

text \<open>
  C5, amended. For every path whose first segment has no own entry in the changes, and
  such that the store has no defined member of the name of the path and no object
  member of the name of its first segment, \<open>get\<close> is the deep read of the content
  (whatever the errors are).
\<close>

theorem get_without_change_reads_content:
  "\<not> hasOwnProperty (Obj (changes this)) (hd (split_dot P)) \<Longrightarrow>
   this_prop h this P = Undefined \<Longrightarrow>
   \<not> isObject (this_prop h this (hd (split_dot P))) \<Longrightarrow>
   get h this P = getDeep h (content this) P"
  by (rule get_of_traced [where s = ContentRead])
     (simp add: get_traced_def from_store_or_content_def Let_def)

theorem get_without_change_reads_content_witness:
  "\<not> hasOwnProperty (Obj (changes store_none)) (hd (split_dot ''user.name'')) \<and>
   this_prop (plain_host no_relationship no_members) store_none ''user.name'' = Undefined \<and>
   \<not> isObject (this_prop (plain_host no_relationship no_members) store_none (hd (split_dot ''user.name''))) \<and>
   get (plain_host no_relationship no_members) store_none ''user.name'' = Inr (Str ''A'')"
proof -
  have h1: "\<not> hasOwnProperty (Obj (changes store_none)) (hd (split_dot ''user.name''))"
    by (simp add: store_none_def hasOwnProperty_def)
  have h2: "this_prop (plain_host no_relationship no_members) store_none ''user.name'' = Undefined"
    by (simp add: this_prop_def plain_host_def no_members_def method_names_def)
  have h3: "\<not> isObject (this_prop (plain_host no_relationship no_members) store_none (hd (split_dot ''user.name'')))"
    by (simp add: this_prop_def plain_host_def no_members_def method_names_def)
  have v: "getDeep (plain_host no_relationship no_members) (content store_none) ''user.name'' = Inr (Str ''A'')"
    by (simp add: plain_host_def store_none_def safeGet_def lookup_def)
  show ?thesis
    using get_without_change_reads_content [OF h1 h2 h3] h1 h2 h3 v by simp
qed

text \<open>
  C6, as stated, fails: under a nested key a candidate that is falsy and no object, such
  as a staged \<open>0\<close>, is returned at once; \<open>get\<close> does not go on to the content.
\<close>

theorem get_falsy_leaf_counterexample:
  "hasOwnProperty (Obj (changes store_age)) ''user'' \<and>
   candidate (plain_host no_relationship no_members) store_age ''user'' [''age''] = Inr (Num 0) \<and>
   \<not> truthy (Num 0) \<and> \<not> isObject (Num 0) \<and>
   hasOwnProperty (Obj (errors store_age)) ''user.age'' \<and>
   get_traced (plain_host no_relationship no_members) store_age ''user.age'' = Inr (LeafChange, Num 0) \<and>
   from_store_or_content (plain_host no_relationship no_members) store_age ''user.age'' ''user'' [''age'']
     = Inr (ContentRead, Num 5) \<and>
   getDeep (plain_host no_relationship no_members) (content store_age) ''user.age'' = Inr (Num 5)"
  by (simp add: store_age_def hasOwnProperty_def candidate_def get_traced_def from_changes_def
      from_store_or_content_def this_prop_def plain_host_def no_members_def method_names_def
      safeGet_def lookup_def)

lemma from_changes_falls_through:
  "candidate h this baseKey remaining = Inr r \<Longrightarrow>
   r = Undefined \<or> (remaining = [] \<and> \<not> truthy r \<and> \<not> isObject r) \<Longrightarrow>
   from_changes h this key baseKey remaining = Inr None"
  by (auto simp: from_changes_def)

text \<open>
  C6, amended. When the changes have an own entry for the base key and the candidate is
  \<open>undefined\<close>, or the key has one segment and the candidate is falsy and no object, then
  \<open>get\<close> is what steps 2 and 3 give, whatever the errors hold; and it is the deep read of
  the content when the store has no defined member of the name of the key and no object
  member of the name of the base key.
\<close>

theorem get_undefined_candidate_falls_through:
  "hasOwnProperty (Obj (changes this)) baseKey \<Longrightarrow>
   split_dot key = baseKey # remaining \<Longrightarrow>
   candidate h this baseKey remaining = Inr r \<Longrightarrow>
   r = Undefined \<or> (remaining = [] \<and> \<not> truthy r \<and> \<not> isObject r) \<Longrightarrow>
   get_traced h this key = from_store_or_content h this key baseKey remaining \<and>
   (this_prop h this key = Undefined \<and> \<not> isObject (this_prop h this baseKey) \<longrightarrow>
      get h this key = getDeep h (content this) key)"
proof -
  assume own: "hasOwnProperty (Obj (changes this)) baseKey"
    and parts: "split_dot key = baseKey # remaining"
    and cand: "candidate h this baseKey remaining = Inr r"
    and r: "r = Undefined \<or> (remaining = [] \<and> \<not> truthy r \<and> \<not> isObject r)"
  have fc: "from_changes h this key baseKey remaining = Inr None"
    using cand r by (rule from_changes_falls_through)
  have g: "get_traced h this key = from_store_or_content h this key baseKey remaining"
    using own parts fc by (simp add: get_traced_def)
  have "get h this key = getDeep h (content this) key"
    if "this_prop h this key = Undefined" "\<not> isObject (this_prop h this baseKey)"
    using that g by (intro get_of_traced [where s = ContentRead]) (simp add: from_store_or_content_def)
  with g show ?thesis by blast
qed

theorem get_undefined_candidate_falls_through_witness:
  "hasOwnProperty (Obj (changes store_name)) ''user'' \<and>
   split_dot ''user.email'' = [''user'', ''email''] \<and>
   candidate (plain_host no_relationship no_members) store_name ''user'' [''email''] = Inr Undefined \<and>
   this_prop (plain_host no_relationship no_members) store_name ''user.email'' = Undefined \<and>
   \<not> isObject (this_prop (plain_host no_relationship no_members) store_name ''user'') \<and>
   get (plain_host no_relationship no_members) store_name ''user.email'' = Inr (Str ''a@x.com'')"
proof -
  let ?h = "plain_host no_relationship no_members"
  have h1: "hasOwnProperty (Obj (changes store_name)) ''user''"
    by (simp add: store_name_def hasOwnProperty_def)
  have h2: "split_dot ''user.email'' = [''user'', ''email'']"
    by simp
  have h3: "candidate ?h store_name ''user'' [''email''] = Inr Undefined"
    by (simp add: candidate_def store_name_def plain_host_def lookup_def safeGet_def)
  have h4: "this_prop ?h store_name ''user.email'' = Undefined"
    by (simp add: this_prop_def plain_host_def no_members_def method_names_def)
  have h5: "\<not> isObject (this_prop ?h store_name ''user'')"
    by (simp add: this_prop_def plain_host_def no_members_def method_names_def)
  have v: "getDeep ?h (content store_name) ''user.email'' = Inr (Str ''a@x.com'')"
    by (simp add: plain_host_def store_name_def safeGet_def lookup_def)
  show ?thesis
    using get_undefined_candidate_falls_through [OF h1 h2 h3] h1 h2 h3 h4 h5 v
    by simp
qed

lemma from_object_sites:
  "getDeep h (content this) key = Inr cal \<Longrightarrow>
   from_object h this key baseKey r = Inr (SiblingMerge, v) \<Longrightarrow>
   \<not> isArray (normalizeObject h r) \<and> isObject cal \<and> \<not> isBelongsToRelationship h cal
     \<and> \<not> isLeafInChanges h key (Obj (changes this))"
  by (auto simp: from_object_def Let_def split: if_splits sum.splits)

lemma from_object_as_is:
  "getDeep h (content this) key = Inr cal \<Longrightarrow>
   isArray (normalizeObject h r) \<or> \<not> isObject cal \<or> isBelongsToRelationship h cal
     \<or> isLeafInChanges h key (Obj (changes this)) \<Longrightarrow>
   from_object h this key baseKey r = Inr (Normalized, normalizeObject h r)"
  by (auto simp: from_object_def Let_def)

lemma get_traced_object_candidate:
  "hasOwnProperty (Obj (changes this)) baseKey \<Longrightarrow>
   split_dot key = baseKey # remaining \<Longrightarrow>
   candidate h this baseKey remaining = Inr r \<Longrightarrow>
   isObject r \<Longrightarrow>
   get_traced h this key = from_object h this key baseKey r"
  by (cases "from_object h this key baseKey r")
     (auto simp: get_traced_def from_changes_def)

text \<open>
  C4. When the candidate resolved from the changes is an object, \<open>get\<close> returns a
  synthesized object only if the normalized candidate is no array, the content at the
  key is an object, it is no relationship, and the key is no leaf in the changes; when
  one of the four fails, \<open>get\<close> returns the normalized candidate as it is.
\<close>

theorem sibling_merge_only_under_conditions:
  "hasOwnProperty (Obj (changes this)) baseKey \<Longrightarrow>
   split_dot key = baseKey # remaining \<Longrightarrow>
   candidate h this baseKey remaining = Inr r \<Longrightarrow>
   isObject r \<Longrightarrow>
   getDeep h (content this) key = Inr contentAtLeaf \<Longrightarrow>
   ((\<exists>v. get_traced h this key = Inr (SiblingMerge, v)) \<longrightarrow>
      \<not> isArray (normalizeObject h r) \<and> isObject contentAtLeaf
      \<and> \<not> isBelongsToRelationship h contentAtLeaf
      \<and> \<not> isLeafInChanges h key (Obj (changes this))) \<and>
   (isArray (normalizeObject h r) \<or> \<not> isObject contentAtLeaf
      \<or> isBelongsToRelationship h contentAtLeaf
      \<or> isLeafInChanges h key (Obj (changes this)) \<longrightarrow>
      get_traced h this key = Inr (Normalized, normalizeObject h r))"
proof -
  assume own: "hasOwnProperty (Obj (changes this)) baseKey"
    and parts: "split_dot key = baseKey # remaining"
    and cand: "candidate h this baseKey remaining = Inr r"
    and obj: "isObject r"
    and leaf: "getDeep h (content this) key = Inr contentAtLeaf"
  have g: "get_traced h this key = from_object h this key baseKey r"
    using own parts cand obj by (rule get_traced_object_candidate)
  show ?thesis
    unfolding g using from_object_sites [OF leaf] from_object_as_is [OF leaf] by blast
qed

theorem sibling_merge_only_under_conditions_witness:
  "hasOwnProperty (Obj (changes store_name)) ''user'' \<and>
   split_dot ''user'' = [''user''] \<and>
   candidate (plain_host no_relationship no_members) store_name ''user'' []
     = Inr (Obj [(''name'', Change (Str ''B''))]) \<and>
   isObject (Obj [(''name'', Change (Str ''B''))]) \<and>
   getDeep (plain_host no_relationship no_members) (content store_name) ''user''
     = Inr (Obj [(''name'', Str ''A''), (''email'', Str ''a@x.com'')]) \<and>
   get_traced (plain_host no_relationship no_members) store_name ''user''
     = Inr (SiblingMerge, Obj [(''name'', Str ''B''), (''email'', Str ''a@x.com'')]) \<and>
   \<not> isLeafInChanges (plain_host no_relationship no_members) ''user'' (Obj (changes store_name)) \<and>
   hasOwnProperty (Obj (changes store_owner)) ''owner'' \<and>
   split_dot ''owner'' = [''owner''] \<and>
   candidate (plain_host promise_like no_members) store_owner ''owner'' []
     = Inr (Obj [(''id'', Change (Num 2))]) \<and>
   isObject (Obj [(''id'', Change (Num 2))]) \<and>
   getDeep (plain_host promise_like no_members) (content store_owner) ''owner''
     = Inr (Obj [(''id'', Num 1), (''isFulfilled'', Bool True)]) \<and>
   isBelongsToRelationship (plain_host promise_like no_members)
     (Obj [(''id'', Num 1), (''isFulfilled'', Bool True)]) \<and>
   get_traced (plain_host promise_like no_members) store_owner ''owner''
     = Inr (Normalized, Obj [(''id'', Num 2)])"
proof -
  let ?h = "plain_host no_relationship no_members"
  let ?g = "plain_host promise_like no_members"
  have a1: "hasOwnProperty (Obj (changes store_name)) ''user''"
    by (simp add: store_name_def hasOwnProperty_def)
  have a2: "split_dot ''user'' = [''user'']"
    by simp
  have a3: "candidate ?h store_name ''user'' [] = Inr (Obj [(''name'', Change (Str ''B''))])"
    by (simp add: candidate_def store_name_def lookup_def)
  have a4: "isObject (Obj [(''name'', Change (Str ''B''))])"
    by simp
  have a5: "getDeep ?h (content store_name) ''user''
     = Inr (Obj [(''name'', Str ''A''), (''email'', Str ''a@x.com'')])"
    by (simp add: plain_host_def store_name_def safeGet_def lookup_def)
  have a6: "get_traced ?h store_name ''user''
     = Inr (SiblingMerge, Obj [(''name'', Str ''B''), (''email'', Str ''a@x.com'')])"
    by code_simp
  have b1: "hasOwnProperty (Obj (changes store_owner)) ''owner''"
    by (simp add: store_owner_def hasOwnProperty_def)
  have b2: "split_dot ''owner'' = [''owner'']"
    by simp
  have b3: "candidate ?g store_owner ''owner'' [] = Inr (Obj [(''id'', Change (Num 2))])"
    by (simp add: candidate_def store_owner_def lookup_def)
  have b4: "isObject (Obj [(''id'', Change (Num 2))])"
    by simp
  have b5: "getDeep ?g (content store_owner) ''owner''
     = Inr (Obj [(''id'', Num 1), (''isFulfilled'', Bool True)])"
    by (simp add: plain_host_def store_owner_def safeGet_def lookup_def)
  have b6: "isBelongsToRelationship ?g (Obj [(''id'', Num 1), (''isFulfilled'', Bool True)])"
    by (simp add: plain_host_def promise_like_def hasOwnProperty_def)
  have n: "normalizeObject ?g (Obj [(''id'', Change (Num 2))]) = Obj [(''id'', Num 2)]"
    by (simp add: plain_host_def)
  from sibling_merge_only_under_conditions [OF a1 a2 a3 a4 a5] a6
  have c1: "\<not> isLeafInChanges ?h ''user'' (Obj (changes store_name))"
    by blast
  from sibling_merge_only_under_conditions [OF b1 b2 b3 b4 b5] b6 n
  have c2: "get_traced ?g store_owner ''owner'' = Inr (Normalized, Obj [(''id'', Num 2)])"
    by simp
  show ?thesis
    using a1 a2 a3 a4 a5 a6 b1 b2 b3 b4 b5 b6 c1 c2 by blast
qed

section \<open>Properties of the overrides, the factory\<close>

text \<open>
  C7. In \<open>_setProperty\<close>, \<open>addError\<close>, \<open>pushErrors\<close> and \<open>_deleteKey\<close>, every
  notification is emitted on the store as the base method left it, which is the store
  the method ends with.
\<close>

theorem notifications_see_the_mutated_store:
  "snd (setProperty super_setProperty this key val oldValue) =
     (super_setProperty this key val oldValue,
      [(CHANGES, super_setProperty this key val oldValue),
       (key, super_setProperty this key val oldValue)]) \<and>
   snd (addError super_addError this key err) =
     (super_addError this key err,
      [(ERRORS, super_addError this key err), (key, super_addError this key err)]) \<and>
   snd (pushErrors super_pushErrors this key newErrors) =
     (snd (super_pushErrors this key newErrors),
      [(ERRORS, snd (super_pushErrors this key newErrors)),
       (key, snd (super_pushErrors this key newErrors))]) \<and>
   snd (deleteKey super_deleteKey this objName key) =
     (snd (super_deleteKey this objName key),
      [(objName @ ''.'' @ key, snd (super_deleteKey this objName key)),
       (objName, snd (super_deleteKey this objName key))])"
  by (simp add: setProperty_def addError_def pushErrors_def deleteKey_def
      notifyPropertyChange_def Let_def split: prod.splits)

text \<open>
  C9. \<open>changeset\<close> fails, with an assertion, exactly when the content is falsy or an
  array; for every other content it returns a store, which without
  \<open>options.changeset\<close> is a new \<open>EmberChangeset\<close> on that content.
\<close>

theorem changeset_asserts_content:
  "((\<exists>msg. changeset obj validateFn alt = Inl (AssertionFailed msg)) \<longleftrightarrow>
      (\<not> truthy obj \<or> isArray obj)) \<and>
   ((\<exists>st. changeset obj validateFn alt = Inr st) \<longleftrightarrow> \<not> (\<not> truthy obj \<or> isArray obj)) \<and>
   (changeset obj validateFn None = Inr (Ember \<lparr>content = obj, changes = [], errors = []\<rparr> validateFn)
      \<longleftrightarrow> \<not> (\<not> truthy obj \<or> isArray obj))"
  by (auto simp: changeset_def split: option.splits)

theorem changeset_asserts_content_witness:
  "(\<exists>msg. changeset (Arr []) (Bool True) (None :: (jsval \<Rightarrow> jsval \<Rightarrow> jsval) option)
      = Inl (AssertionFailed msg)) \<and>
   (\<exists>msg. changeset Undefined (Bool True) (None :: (jsval \<Rightarrow> jsval \<Rightarrow> jsval) option)
      = Inl (AssertionFailed msg)) \<and>
   changeset (Obj []) (Bool True) (None :: (jsval \<Rightarrow> jsval \<Rightarrow> jsval) option)
      = Inr (Ember \<lparr>content = Obj [], changes = [], errors = []\<rparr> (Bool True))"
proof -
  have a: "\<not> truthy (Arr []) \<or> isArray (Arr [])" by simp
  have b: "\<not> truthy Undefined \<or> isArray Undefined" by simp
  have c: "\<not> (\<not> truthy (Obj []) \<or> isArray (Obj []))" by simp
  show ?thesis
    using changeset_asserts_content [of "Arr []" "Bool True" "None :: (jsval \<Rightarrow> jsval \<Rightarrow> jsval) option"]
      changeset_asserts_content [of Undefined "Bool True" "None :: (jsval \<Rightarrow> jsval \<Rightarrow> jsval) option"]
      changeset_asserts_content [of "Obj []" "Bool True" "None :: (jsval \<Rightarrow> jsval \<Rightarrow> jsval) option"]
      a b c
    by blast
qed

section \<open>The Proxy\<close>

lemma set_js_rejected:
  "validate path val (safeGet (content this) path) = Inr validation \<Longrightarrow>
   validation \<noteq> Bool True \<Longrightarrow>
   \<exists>r this1 evs. set_js validate this path val = Inr (r, this1, evs) \<and>
      hasOwnProperty (Obj (errors this1)) path"
  by (simp add: set_js_def setProperty_def addError_def base_addError_def Let_def
      hasOwnProperty_def assign_prop_def update_conv')

text \<open>
  C10, as stated, fails: when the target's \<open>set\<close> throws, here because the validator
  throws, the \<open>set\<close> trap does not reach \<open>return true\<close> and the assignment throws.
\<close>

theorem proxy_set_throws_counterexample:
  "proxy_set (set_js throwing_validator) store_none (Name ''user.name'') (Str ''B'')
     = Inl (HostError ''validator failed'')"
  by (simp add: proxy_set_def set_js_def setProperty_def throwing_validator_def Let_def)

text \<open>
  C10, amended. The \<open>get\<close> trap returns the target's \<open>get\<close> of the key as a string. The
  \<open>set\<close> trap calls the target's \<open>set\<close> with the key as a string and the value: when
  that call returns, the trap answers \<open>true\<close>, whatever the call did, and when it throws,
  the trap throws the same. In particular, when the validator returns a rejection, the
  trap answers \<open>true\<close> and the store holds an error at the key.
\<close>

theorem proxy_forwards:
  "proxy_get target_get targetBuffer key = target_get targetBuffer (toString key) \<and>
   (\<forall>outcome. target_set targetBuffer (toString key) val = Inr outcome \<longrightarrow>
      proxy_set target_set targetBuffer key val = Inr (True, outcome)) \<and>
   (\<forall>e. target_set targetBuffer (toString key) val = Inl e \<longrightarrow>
      proxy_set target_set targetBuffer key val = Inl e) \<and>
   (\<forall>validation.
      validate (toString key) val (safeGet (content this) (toString key)) = Inr validation \<and>
      validation \<noteq> Bool True \<longrightarrow>
      (\<exists>r this1 evs. proxy_set (set_js validate) this key val = Inr (True, r, this1, evs) \<and>
         hasOwnProperty (Obj (errors this1)) (toString key)))"
proof -
  have "\<exists>r this1 evs. proxy_set (set_js validate) this key val = Inr (True, r, this1, evs) \<and>
         hasOwnProperty (Obj (errors this1)) (toString key)"
    if "validate (toString key) val (safeGet (content this) (toString key)) = Inr validation"
      "validation \<noteq> Bool True" for validation
    using set_js_rejected [of validate "toString key" val this validation] that
    by (auto simp: proxy_set_def)
  then show ?thesis
    by (simp add: proxy_get_def proxy_set_def)
qed

theorem proxy_forwards_witness:
  "never_valid (toString (Symbol ''tag'')) (Num 1)
       (safeGet (content store_none) (toString (Symbol ''tag'')))
     = Inr (Str ''is invalid'') \<and>
   Str ''is invalid'' \<noteq> Bool True \<and>
   toString (Symbol ''tag'') = ''Symbol(tag)'' \<and>
   (\<exists>r this1 evs.
      proxy_set (set_js never_valid) store_none (Symbol ''tag'') (Num 1) = Inr (True, r, this1, evs) \<and>
      hasOwnProperty (Obj (errors this1)) (toString (Symbol ''tag''))) \<and>
   set_js throwing_validator store_none (toString (Name ''user.name'')) (Str ''B'')
     = Inl (HostError ''validator failed'') \<and>
   proxy_set (set_js throwing_validator) store_none (Name ''user.name'') (Str ''B'')
     = Inl (HostError ''validator failed'')"
proof -
  have a: "never_valid (toString (Symbol ''tag'')) (Num 1)
       (safeGet (content store_none) (toString (Symbol ''tag''))) = Inr (Str ''is invalid'')"
    by (simp add: never_valid_def)
  have b: "Str ''is invalid'' \<noteq> Bool True"
    by simp
  have c: "toString (Symbol ''tag'') = ''Symbol(tag)''"
    by simp
  have t: "set_js throwing_validator store_none (toString (Name ''user.name'')) (Str ''B'')
     = Inl (HostError ''validator failed'')"
    by (simp add: set_js_def setProperty_def throwing_validator_def Let_def)
  from proxy_forwards [of "get (plain_host no_relationship no_members)" store_none
        "Symbol ''tag''" "set_js never_valid" "Num 1" never_valid store_none] a b
  have x: "\<exists>r this1 evs.
      proxy_set (set_js never_valid) store_none (Symbol ''tag'') (Num 1) = Inr (True, r, this1, evs) \<and>
      hasOwnProperty (Obj (errors this1)) (toString (Symbol ''tag''))"
    by blast
  from proxy_forwards [of "get (plain_host no_relationship no_members)" store_none
        "Name ''user.name''" "set_js throwing_validator" "Str ''B''" never_valid store_none] t
  have y: "proxy_set (set_js throwing_validator) store_none (Name ''user.name'') (Str ''B'')
     = Inl (HostError ''validator failed'')"
    by blast
  from a b c x t y show ?thesis by blast
qed

section \<open>The sibling merge, on the example of the spec\<close>

lemma set_js_user_name:
  "validate ''user.name'' (Str ''B'') (Str ''A'') = Inr (Bool True) \<Longrightarrow>
   \<exists>r evs. set_js validate store_none ''user.name'' (Str ''B'') = Inr (r, store_name, evs)"
  by (simp add: set_js_def setProperty_def base_setProperty_def store_none_def store_name_def
      safeGet_def lookup_def assign_prop_def Let_def)

lemma get_traced_user:
  "\<not> rel (Obj [(''name'', Str ''A''), (''email'', Str ''a@x.com'')]) \<Longrightarrow>
   get_traced (plain_host rel inh) store_name ''user''
     = Inr (SiblingMerge, Obj [(''name'', Str ''B''), (''email'', Str ''a@x.com'')])"
  by (simp add: get_traced_def from_changes_def candidate_def from_object_def merge_key_def
      hasOwnProperty_def keys_def plain_host_def store_name_def safeGet_def leafInChanges_def
      lookup_def assign_all_def assign_prop_def Let_def)

text \<open>
  C3. On the content \<open>{ user: { name: 'A', email: 'a@x.com' } }\<close>, a
  \<open>set('user.name', 'B')\<close> that passes validation leaves the store \<open>store_name\<close>, on
  which \<open>get('user')\<close> returns \<open>{ name: 'B', email: 'a@x.com' }\<close>, through \<open>return
  data\<close>: the object is the one the call creates, not one of the content or of the
  changes. The content of the store is still the original one, the changes hold the
  wrapped \<open>'B'\<close>, and it is \<open>execute\<close> that writes \<open>'B'\<close> into the content. (\<open>get\<close> is
  a function of the store: no statement of it assigns to a field of the store, to the
  content or to the changes.)
\<close>

theorem sibling_merge_scenario:
  "validate ''user.name'' (Str ''B'') (Str ''A'') = Inr (Bool True) \<Longrightarrow>
   \<not> rel (Obj [(''name'', Str ''A''), (''email'', Str ''a@x.com'')]) \<Longrightarrow>
   (\<exists>r evs. set_js validate store_none ''user.name'' (Str ''B'') = Inr (r, store_name, evs)) \<and>
   get_traced (plain_host rel inh) store_name ''user''
     = Inr (SiblingMerge, Obj [(''name'', Str ''B''), (''email'', Str ''a@x.com'')]) \<and>
   get (plain_host rel inh) store_name ''user''
     = Inr (Obj [(''name'', Str ''B''), (''email'', Str ''a@x.com'')]) \<and>
   content store_name
     = Obj [(''user'', Obj [(''name'', Str ''A''), (''email'', Str ''a@x.com'')])] \<and>
   content store_name = content store_none \<and>
   changes store_name = [(''user'', Obj [(''name'', Change (Str ''B''))])] \<and>
   execute mergeDeep store_name
     = Inr (This, store_name\<lparr>content :=
         Obj [(''user'', Obj [(''name'', Str ''B''), (''email'', Str ''a@x.com'')])]\<rparr>)"
proof -
  assume v: "validate ''user.name'' (Str ''B'') (Str ''A'') = Inr (Bool True)"
    and r: "\<not> rel (Obj [(''name'', Str ''A''), (''email'', Str ''a@x.com'')])"
  have s: "\<exists>r evs. set_js validate store_none ''user.name'' (Str ''B'') = Inr (r, store_name, evs)"
    using v by (rule set_js_user_name)
  have g: "get_traced (plain_host rel inh) store_name ''user''
     = Inr (SiblingMerge, Obj [(''name'', Str ''B''), (''email'', Str ''a@x.com'')])"
    using r by (rule get_traced_user)
  have e: "execute mergeDeep store_name
     = Inr (This, store_name\<lparr>content :=
         Obj [(''user'', Obj [(''name'', Str ''B''), (''email'', Str ''a@x.com'')])]\<rparr>)"
    using mergeDeep_store_name
    by (simp add: execute_def isValid_def isDirty_def Let_def) (simp add: store_name_def)
  have c: "content store_name
     = Obj [(''user'', Obj [(''name'', Str ''A''), (''email'', Str ''a@x.com'')])]"
    "content store_name = content store_none"
    "changes store_name = [(''user'', Obj [(''name'', Change (Str ''B''))])]"
    by (simp_all add: store_name_def store_none_def)
  from g have g': "get (plain_host rel inh) store_name ''user''
     = Inr (Obj [(''name'', Str ''B''), (''email'', Str ''a@x.com'')])"
    by (simp add: get_def)
  from s g g' c e show ?thesis by blast
qed

theorem sibling_merge_scenario_witness:
  "always_valid ''user.name'' (Str ''B'') (Str ''A'') = Inr (Bool True) \<and>
   \<not> no_relationship (Obj [(''name'', Str ''A''), (''email'', Str ''a@x.com'')]) \<and>
   (\<exists>r evs. set_js always_valid store_none ''user.name'' (Str ''B'') = Inr (r, store_name, evs)) \<and>
   get (plain_host no_relationship no_members) store_name ''user''
     = Inr (Obj [(''name'', Str ''B''), (''email'', Str ''a@x.com'')]) \<and>
   content store_name
     = Obj [(''user'', Obj [(''name'', Str ''A''), (''email'', Str ''a@x.com'')])]"
proof -
  have a: "always_valid ''user.name'' (Str ''B'') (Str ''A'') = Inr (Bool True)"
    by (simp add: always_valid_def)
  have b: "\<not> no_relationship (Obj [(''name'', Str ''A''), (''email'', Str ''a@x.com'')])"
    by (simp add: no_relationship_def)
  show ?thesis
    using sibling_merge_scenario [of always_valid no_relationship no_members, OF a b] a b by blast
qed

end
